theory Spec2Isabelle
  imports Main "HOL-Library.Sublist" "HOL-Library.AList"
begin

section \<open>Values of the JSON payloads and resources\<close>

text \<open>
  Webhook payloads (\<open>request.get_json()\<close>) and the resources returned by the
  Sonarr/Radarr API are JSON values, which Python holds as \<open>None\<close>, \<open>bool\<close>,
  \<open>int\<close>, \<open>str\<close>, \<open>list\<close> and \<open>dict\<close>. A dict is kept as an association list
  in insertion order, with distinct keys as the JSON parser leaves them. Numbers are
  integers, as the custom format score and the ids of the API are; strings are
  ASCII text.
\<close>

datatype json =
    JNull
  | JBool bool
  | JInt int
  | JStr string
  | JList "json list"
  | JObj "(string \<times> json) list"

text \<open>The exceptions the modelled code can raise.\<close>

datatype error = TypeError | AttributeError | KeyError

text \<open>Python's truth value of an object, as \<open>if x:\<close> and \<open>not x\<close> test it.\<close>

fun truthy :: "json \<Rightarrow> bool" where
  "truthy JNull = False"
| "truthy (JBool b) = b"
| "truthy (JInt n) = (n \<noteq> 0)"
| "truthy (JStr s) = (s \<noteq> [])"
| "truthy (JList xs) = (xs \<noteq> [])"
| "truthy (JObj kvs) = (kvs \<noteq> [])"

text \<open>
  \<open>d.get(key, default)\<close>: only a dict has the method; on any other object the
  attribute lookup raises \<open>AttributeError\<close>.
\<close>

fun py_get :: "json \<Rightarrow> string \<Rightarrow> json \<Rightarrow> error + json" where
  "py_get (JObj kvs) k d = Inr (case map_of kvs k of None \<Rightarrow> d | Some v \<Rightarrow> v)"
| "py_get _ k d = Inl AttributeError"

text \<open>
  \<open>for x in obj\<close>: a list yields its elements, a dict its keys, a string its
  characters; \<open>None\<close>, \<open>bool\<close> and \<open>int\<close> are not iterable.
\<close>

fun py_iter :: "json \<Rightarrow> error + json list" where
  "py_iter (JList xs) = Inr xs"
| "py_iter (JObj kvs) = Inr (map (\<lambda>kv. JStr (fst kv)) kvs)"
| "py_iter (JStr s) = Inr (map (\<lambda>c. JStr [c]) s)"
| "py_iter _ = Inl TypeError"

text \<open>\<open>obj[key] = v\<close> with a string key: only a dict accepts it.\<close>

fun py_setitem :: "json \<Rightarrow> string \<Rightarrow> json \<Rightarrow> error + json" where
  "py_setitem (JObj kvs) k v = Inr (JObj (AList.update k v kvs))"
| "py_setitem _ k v = Inl TypeError"

text \<open>\<open>str.lower()\<close> and \<open>str.upper()\<close> on ASCII text.\<close>

definition lower_char :: "char \<Rightarrow> char" where
  "lower_char c =
     (case map_of (zip ''ABCDEFGHIJKLMNOPQRSTUVWXYZ'' ''abcdefghijklmnopqrstuvwxyz'') c of
        None \<Rightarrow> c
      | Some l \<Rightarrow> l)"

definition upper_char :: "char \<Rightarrow> char" where
  "upper_char c =
     (case map_of (zip ''abcdefghijklmnopqrstuvwxyz'' ''ABCDEFGHIJKLMNOPQRSTUVWXYZ'') c of
        None \<Rightarrow> c
      | Some u \<Rightarrow> u)"

definition lower :: "string \<Rightarrow> string" where
  "lower s = map lower_char s"

definition upper :: "string \<Rightarrow> string" where
  "upper s = map upper_char s"

text \<open>\<open>x.lower()\<close> on an arbitrary object: only \<open>str\<close> has the method.\<close>

fun py_lower :: "json \<Rightarrow> error + string" where
  "py_lower (JStr s) = Inr (lower s)"
| "py_lower _ = Inl AttributeError"

text \<open>\<open>a in b\<close> on two strings: \<open>a\<close> occurs in \<open>b\<close> as a contiguous substring.\<close>

fun str_in :: "string \<Rightarrow> string \<Rightarrow> bool" where
  "str_in a [] = (a = [])"
| "str_in a (c # cs) = (prefix a (c # cs) \<or> str_in a cs)"

text \<open>
  \<open>x >= t\<close> where \<open>t\<close> is an \<open>int\<close>: defined for \<open>int\<close> and for \<open>bool\<close>
  (a subclass of \<open>int\<close>); every other left operand raises \<open>TypeError\<close>.
\<close>

fun py_ge_int :: "json \<Rightarrow> int \<Rightarrow> error + bool" where
  "py_ge_int (JInt n) t = Inr (n \<ge> t)"
| "py_ge_int (JBool b) t = Inr ((if b then 1 else 0) \<ge> t)"
| "py_ge_int _ t = Inl TypeError"

section \<open>Configuration\<close>

text \<open>
  The configuration dict as \<open>ConfigManager.add_config\<close> builds it and the
  orchestrators read it: \<open>quality_score\<close> is an \<open>int\<close> or \<open>None\<close>,
  \<open>format_name\<close> a \<open>str\<close> or \<open>None\<close>.
\<close>

record config =
  ip_address :: string
  api_token :: string
  quality_score :: "int option"
  format_name :: "string option"

section \<open>Quality gate\<close>

text \<open>
  The block under the comment \<open>Check if quality criteria is met\<close>, which the four
  orchestrators share. \<open>threshold_criterion\<close> is its first \<open>if\<close>,
  \<open>format_criterion\<close> its second one; both only ever set \<open>should_unmonitor\<close>
  to \<open>True\<close>.
\<close>

definition threshold_criterion :: "config \<Rightarrow> json \<Rightarrow> bool \<Rightarrow> error + bool" where
  "threshold_criterion cfg score should_unmonitor =
     (case quality_score cfg of
        None \<Rightarrow> Inr should_unmonitor
      | Some t \<Rightarrow>
          (case py_ge_int score t of
             Inl e \<Rightarrow> Inl e
           | Inr b \<Rightarrow> Inr (if b then True else should_unmonitor)))"

text \<open>
  The \<open>for custom_format in format_name\<close> loop: the first name that contains the
  configured substring sets the flag and breaks; a name without \<open>lower\<close> raises.
\<close>

fun format_loop :: "string \<Rightarrow> json list \<Rightarrow> bool \<Rightarrow> error + bool" where
  "format_loop f [] should_unmonitor = Inr should_unmonitor"
| "format_loop f (custom_format # rest) should_unmonitor =
     (case py_lower custom_format of
        Inl e \<Rightarrow> Inl e
      | Inr l \<Rightarrow> if str_in (lower f) l then Inr True else format_loop f rest should_unmonitor)"

definition format_criterion :: "config \<Rightarrow> json list \<Rightarrow> bool \<Rightarrow> error + bool" where
  "format_criterion cfg names should_unmonitor =
     (case format_name cfg of
        None \<Rightarrow> Inr should_unmonitor
      | Some f \<Rightarrow>
          if f \<noteq> [] \<and> names \<noteq> [] then format_loop f names should_unmonitor
          else Inr should_unmonitor)"

definition quality_gate :: "config \<Rightarrow> json \<Rightarrow> json list \<Rightarrow> error + bool" where
  "quality_gate cfg score names =
     (case threshold_criterion cfg score False of
        Inl e \<Rightarrow> Inl e
      | Inr should_unmonitor \<Rightarrow> format_criterion cfg names should_unmonitor)"

text \<open>
  The extraction of the quality info, the same three lines in every orchestrator:
  \<^verbatim>\<open>quality_score = quality.get('customFormatScore', 0)\<close> and
  \<^verbatim>\<open>format_name = [cf["name"] for cf in quality.get('customFormats', []) if cf.get("name")]\<close>.
  \<open>format_names\<close> is the comprehension over the iterated list.
\<close>

fun format_names :: "json list \<Rightarrow> error + json list" where
  "format_names [] = Inr []"
| "format_names (cf # cfs) =
     (case py_get cf ''name'' JNull of
        Inl e \<Rightarrow> Inl e
      | Inr n \<Rightarrow>
          (case format_names cfs of
             Inl e \<Rightarrow> Inl e
           | Inr ns \<Rightarrow> Inr (if truthy n then n # ns else ns)))"

definition quality_info :: "json \<Rightarrow> error + json \<times> json list" where
  "quality_info quality =
     (case py_get quality ''customFormatScore'' (JInt 0) of
        Inl e \<Rightarrow> Inl e
      | Inr score \<Rightarrow>
          (case py_get quality ''customFormats'' (JList []) of
             Inl e \<Rightarrow> Inl e
           | Inr cfs \<Rightarrow>
               (case py_iter cfs of
                  Inl e \<Rightarrow> Inl e
                | Inr xs \<Rightarrow>
                    (case format_names xs of
                       Inl e \<Rightarrow> Inl e
                     | Inr names \<Rightarrow> Inr (score, names)))))"

text \<open>Extraction followed by the gate, on the object that carries the quality info.\<close>

definition evaluate_quality :: "config \<Rightarrow> json \<Rightarrow> error + bool" where
  "evaluate_quality cfg quality =
     (case quality_info quality of
        Inl e \<Rightarrow> Inl e
      | Inr (score, names) \<Rightarrow> quality_gate cfg score names)"

section \<open>The remote service and the API client\<close>

text \<open>
  An f-string is kept as the list of its pieces: literal text, an interpolated
  value, or the text of a caught exception.
\<close>

datatype piece = Lit string | Fmt json | Exc error

record request =
  meth :: string
  url :: "piece list"
  api_key :: string
  body :: "json option"

text \<open>
  What one HTTP exchange can come to in \<open>_make_request\<close>: the four \<open>except\<close>
  branches, a JSON body, or a body that is not JSON.
\<close>

datatype response = Timeout | ConnectionError | HTTPError | Unexpected | Json json | NotJson

text \<open>
  The remote service answers a request knowing the requests sent before it.
  The state the code acts on is the list of requests sent so far and the records
  that the logger of \<open>app.py\<close> has written at level \<open>ERROR\<close>.
\<close>

type_synonym remote = "request list \<Rightarrow> request \<Rightarrow> response"

record world =
  requests :: "request list"
  error_log :: "piece list list"

definition log_error :: "piece list \<Rightarrow> world \<Rightarrow> world" where
  "log_error msg w = w\<lparr>error_log := error_log w @ [msg]\<rparr>"

record client =
  self_ip_address :: string
  self_api_token :: string
  self_service_type :: string
  self_base_url :: string

definition rstrip_slash :: "string \<Rightarrow> string" where
  "rstrip_slash s = rev (dropWhile (\<lambda>c. c = CHR ''/'') (rev s))"

definition SonarrRadarrClient :: "string \<Rightarrow> string \<Rightarrow> string \<Rightarrow> client" where
  "SonarrRadarrClient ip token service =
     \<lparr>self_ip_address = rstrip_slash ip,
      self_api_token = token,
      self_service_type = lower service,
      self_base_url = ''http://'' @ rstrip_slash ip @ ''/api/v3''\<rparr>"

text \<open>
  \<open>_make_request\<close> returns the JSON of the response, \<open>{'status': 'success'}\<close>
  for a body that is not JSON, and \<open>None\<close> (\<open>JNull\<close>) for a method it does not
  support and for every failure of the exchange. It never raises.
\<close>

definition returned :: "response \<Rightarrow> json" where
  "returned r =
     (case r of
        Json j \<Rightarrow> j
      | NotJson \<Rightarrow> JObj [(''status'', JStr ''success'')]
      | _ \<Rightarrow> JNull)"

definition make_request ::
  "client \<Rightarrow> string \<Rightarrow> piece list \<Rightarrow> json option \<Rightarrow> remote \<Rightarrow> world \<Rightarrow> json \<times> world" where
  "make_request self method endpoint data env w =
     (let m = upper method in
      if m = ''GET'' \<or> m = ''POST'' \<or> m = ''PUT'' \<or> m = ''DELETE'' then
        let req = \<lparr>meth = m,
                   url = Lit (self_base_url self) # Lit ''/'' # endpoint,
                   api_key = self_api_token self,
                   body = (if m = ''POST'' \<or> m = ''PUT'' then data else None)\<rparr>
        in (returned (env (requests w) req), w\<lparr>requests := requests w @ [req]\<rparr>)
      else (JNull, w))"

definition unmonitor_episode :: "client \<Rightarrow> json \<Rightarrow> remote \<Rightarrow> world \<Rightarrow> bool \<times> world" where
  "unmonitor_episode self episode_id env w =
     (if self_service_type self \<noteq> ''sonarr'' then (False, w)
      else
        let (episode, w1) = make_request self ''GET'' [Lit ''episode/'', Fmt episode_id] None env w in
        if \<not> truthy episode then (False, w1)
        else
          (case py_setitem episode ''monitored'' (JBool False) of
             Inl e \<Rightarrow> (False, w1)
           | Inr episode' \<Rightarrow>
               let (result, w2) =
                     make_request self ''PUT'' [Lit ''episode/'', Fmt episode_id] (Some episode') env w1
               in (truthy result, w2)))"

text \<open>
  \<open>episode_ids\<close> is the Python list the caller built, so the \<open>isinstance\<close> test
  of \<open>unmonitor_episodes\<close> always passes.
\<close>

definition unmonitor_episodes :: "client \<Rightarrow> json list \<Rightarrow> remote \<Rightarrow> world \<Rightarrow> bool \<times> world" where
  "unmonitor_episodes self episode_ids env w =
     (if self_service_type self \<noteq> ''sonarr'' then (False, w)
      else if length episode_ids = 0 then (False, w)
      else
        let episodes = JObj [(''episodeIds'', JList episode_ids), (''monitored'', JBool False)];
            (result, w1) = make_request self ''PUT'' [Lit ''episode/monitor''] (Some episodes) env w
        in (truthy result, w1))"

definition unmonitor_movie :: "client \<Rightarrow> json \<Rightarrow> remote \<Rightarrow> world \<Rightarrow> bool \<times> world" where
  "unmonitor_movie self movie_id env w =
     (if self_service_type self \<noteq> ''radarr'' then (False, w)
      else
        let (movie, w1) = make_request self ''GET'' [Lit ''movie/'', Fmt movie_id] None env w in
        if \<not> truthy movie then (False, w1)
        else
          (case py_setitem movie ''monitored'' (JBool False) of
             Inl e \<Rightarrow> (False, w1)
           | Inr movie' \<Rightarrow>
               let (result, w2) =
                     make_request self ''PUT'' [Lit ''movie/'', Fmt movie_id] (Some movie') env w1
               in (truthy result, w2)))"

text \<open>
  The query string of \<open>get_episodes\<close>: each custom header is appended after
  \<open>&\<close> once a parameter is there, after \<open>?\<close> otherwise.
\<close>

fun add_headers :: "piece list \<Rightarrow> bool \<Rightarrow> string list \<Rightarrow> piece list" where
  "add_headers endpoint q_added [] = endpoint"
| "add_headers endpoint q_added (h # hs) =
     add_headers (endpoint @ [Lit (if q_added then ''&'' else ''?''), Lit h]) True hs"

definition is_list :: "json \<Rightarrow> bool" where
  "is_list j = (case j of JList xs \<Rightarrow> True | _ \<Rightarrow> False)"

definition is_dict :: "json \<Rightarrow> bool" where
  "is_dict j = (case j of JObj kvs \<Rightarrow> True | _ \<Rightarrow> False)"

definition get_episodes ::
  "client \<Rightarrow> json \<Rightarrow> string list \<Rightarrow> remote \<Rightarrow> world \<Rightarrow> json \<times> world" where
  "get_episodes self series_id custom_headers env w =
     (if self_service_type self \<noteq> ''sonarr'' then (JNull, w)
      else
        let endpoint =
              (if truthy series_id
               then add_headers [Lit ''episode'', Lit ''?seriesId='', Fmt series_id] True custom_headers
               else add_headers [Lit ''episode''] False custom_headers);
            (result, w1) = make_request self ''GET'' endpoint None env w
        in (if is_list result then result else JNull, w1))"

definition get_movies :: "client \<Rightarrow> remote \<Rightarrow> world \<Rightarrow> json \<times> world" where
  "get_movies self env w =
     (if self_service_type self \<noteq> ''radarr'' then (JNull, w)
      else
        let (result, w1) = make_request self ''GET'' [Lit ''movie''] None env w
        in (if is_list result then result else JNull, w1))"

definition get_movie_file :: "client \<Rightarrow> json \<Rightarrow> remote \<Rightarrow> world \<Rightarrow> json \<times> world" where
  "get_movie_file self movie_id env w =
     (if self_service_type self \<noteq> ''radarr'' then (JNull, w)
      else if movie_id = JNull then (JNull, w)
      else
        let (result, w1) = make_request self ''GET'' [Lit ''moviefile/'', Fmt movie_id] None env w
        in (if is_dict result then result else JNull, w1))"

definition get_series :: "client \<Rightarrow> remote \<Rightarrow> world \<Rightarrow> json \<times> world" where
  "get_series self env w =
     (if self_service_type self \<noteq> ''sonarr'' then (JNull, w)
      else
        let (result, w1) = make_request self ''GET'' [Lit ''series''] None env w
        in (if is_list result then result else JNull, w1))"

section \<open>Event orchestrators\<close>

text \<open>
  Each orchestrator runs its body under \<open>try\<close>; \<open>except Exception\<close> logs the
  error and returns \<open>False\<close>. The body is modelled with the exception as a value,
  next to the state reached when it was raised.
\<close>

text \<open>The loop \<open>for episode in episodes\<close> of \<open>process_sonarr_webhook\<close>.\<close>

definition unmonitor_and_log ::
  "client \<Rightarrow> json \<Rightarrow> remote \<Rightarrow> world \<Rightarrow> world" where
  "unmonitor_and_log self episode_id env w =
     (let (success, w1) = unmonitor_episode self episode_id env w
      in if success then w1
         else log_error [Lit ''Failed to unmonitor Sonarr episode ID: '', Fmt episode_id] w1)"

fun webhook_episodes_loop ::
  "client \<Rightarrow> json list \<Rightarrow> remote \<Rightarrow> world \<Rightarrow> error option \<times> world" where
  "webhook_episodes_loop self [] env w = (None, w)"
| "webhook_episodes_loop self (episode # rest) env w =
     (case py_get episode ''id'' JNull of
        Inl e \<Rightarrow> (Some e, w)
      | Inr episode_id \<Rightarrow>
          if truthy episode_id
          then webhook_episodes_loop self rest env (unmonitor_and_log self episode_id env w)
          else webhook_episodes_loop self rest env w)"

definition sonarr_webhook_body ::
  "config \<Rightarrow> json \<Rightarrow> remote \<Rightarrow> world \<Rightarrow> (error + bool) \<times> world" where
  "sonarr_webhook_body cfg webhook_data env w =
     (case py_get webhook_data ''eventType'' JNull of
        Inl e \<Rightarrow> (Inl e, w)
      | Inr event_type \<Rightarrow>
          if event_type \<noteq> JStr ''Download'' then (Inr True, w)
          else
            (case py_get webhook_data ''episodes'' (JList []) of
               Inl e \<Rightarrow> (Inl e, w)
             | Inr episodes \<Rightarrow>
                 (case py_get webhook_data ''customFormatInfo'' (JObj []) of
                    Inl e \<Rightarrow> (Inl e, w)
                  | Inr quality \<Rightarrow>
                      (case evaluate_quality cfg quality of
                         Inl e \<Rightarrow> (Inl e, w)
                       | Inr should_unmonitor \<Rightarrow>
                           if should_unmonitor then
                             (case py_iter episodes of
                                Inl e \<Rightarrow> (Inl e, w)
                              | Inr eps \<Rightarrow>
                                  (case webhook_episodes_loop
                                          (SonarrRadarrClient (ip_address cfg) (api_token cfg) ''sonarr'')
                                          eps env w of
                                     (Some e, w1) \<Rightarrow> (Inl e, w1)
                                   | (None, w1) \<Rightarrow> (Inr True, w1)))
                           else (Inr True, w)))))"

definition process_sonarr_webhook ::
  "config \<Rightarrow> json \<Rightarrow> remote \<Rightarrow> world \<Rightarrow> bool \<times> world" where
  "process_sonarr_webhook cfg webhook_data env w =
     (case sonarr_webhook_body cfg webhook_data env w of
        (Inl e, w1) \<Rightarrow> (False, log_error [Lit ''Error processing Sonarr webhook: '', Exc e] w1)
      | (Inr r, w1) \<Rightarrow> (r, w1))"

definition unmonitor_movie_and_log ::
  "client \<Rightarrow> json \<Rightarrow> remote \<Rightarrow> world \<Rightarrow> world" where
  "unmonitor_movie_and_log self movie_id env w =
     (let (success, w1) = unmonitor_movie self movie_id env w
      in if success then w1
         else log_error [Lit ''Failed to unmonitor Radarr movie ID: '', Fmt movie_id] w1)"

definition radarr_webhook_body ::
  "config \<Rightarrow> json \<Rightarrow> remote \<Rightarrow> world \<Rightarrow> (error + bool) \<times> world" where
  "radarr_webhook_body cfg webhook_data env w =
     (case py_get webhook_data ''eventType'' JNull of
        Inl e \<Rightarrow> (Inl e, w)
      | Inr event_type \<Rightarrow>
          if event_type \<noteq> JStr ''Download'' then (Inr True, w)
          else
            (case py_get webhook_data ''movie'' (JObj []) of
               Inl e \<Rightarrow> (Inl e, w)
             | Inr movie \<Rightarrow>
                 (case py_get movie ''id'' JNull of
                    Inl e \<Rightarrow> (Inl e, w)
                  | Inr movie_id \<Rightarrow>
                      (case py_get webhook_data ''customFormatInfo'' (JObj []) of
                         Inl e \<Rightarrow> (Inl e, w)
                       | Inr quality \<Rightarrow>
                           (case evaluate_quality cfg quality of
                              Inl e \<Rightarrow> (Inl e, w)
                            | Inr should_unmonitor \<Rightarrow>
                                if should_unmonitor \<and> truthy movie_id then
                                  (Inr True,
                                   unmonitor_movie_and_log
                                     (SonarrRadarrClient (ip_address cfg) (api_token cfg) ''radarr'')
                                     movie_id env w)
                                else (Inr True, w))))))"

definition process_radarr_webhook ::
  "config \<Rightarrow> json \<Rightarrow> remote \<Rightarrow> world \<Rightarrow> bool \<times> world" where
  "process_radarr_webhook cfg webhook_data env w =
     (case radarr_webhook_body cfg webhook_data env w of
        (Inl e, w1) \<Rightarrow> (False, log_error [Lit ''Error processing Radarr webhook: '', Exc e] w1)
      | (Inr r, w1) \<Rightarrow> (r, w1))"

section \<open>Batch orchestrators\<close>

text \<open>
  One pass of the inner loop of \<open>process_sonarr_force_unmonitor\<close> over an episode:
  the three \<open>continue\<close> tests, then extraction and gate, then the \<open>append\<close>.
\<close>

definition sonarr_episode :: "config \<Rightarrow> json \<Rightarrow> json list \<Rightarrow> error + json list" where
  "sonarr_episode cfg episode to_unmonitor =
     (case py_get episode ''id'' JNull of
        Inl e \<Rightarrow> Inl e
      | Inr episode_id \<Rightarrow>
          if episode_id = JNull then Inr to_unmonitor
          else
            (case py_get episode ''monitored'' (JBool False) of
               Inl e \<Rightarrow> Inl e
             | Inr episode_monitored \<Rightarrow>
                 if \<not> truthy episode_monitored then Inr to_unmonitor
                 else
                   (case py_get episode ''hasFile'' (JBool False) of
                      Inl e \<Rightarrow> Inl e
                    | Inr episode_has_file \<Rightarrow>
                        if \<not> truthy episode_has_file then Inr to_unmonitor
                        else
                          (case py_get episode ''episodeFile'' (JObj []) of
                             Inl e \<Rightarrow> Inl e
                           | Inr episodeFile \<Rightarrow>
                               (case evaluate_quality cfg episodeFile of
                                  Inl e \<Rightarrow> Inl e
                                | Inr should_unmonitor \<Rightarrow>
                                    Inr (if should_unmonitor then to_unmonitor @ [episode_id]
                                         else to_unmonitor))))))"

fun sonarr_episodes_loop :: "config \<Rightarrow> json list \<Rightarrow> json list \<Rightarrow> error + json list" where
  "sonarr_episodes_loop cfg [] to_unmonitor = Inr to_unmonitor"
| "sonarr_episodes_loop cfg (episode # rest) to_unmonitor =
     (case sonarr_episode cfg episode to_unmonitor of
        Inl e \<Rightarrow> Inl e
      | Inr to_unmonitor' \<Rightarrow> sonarr_episodes_loop cfg rest to_unmonitor')"




text \<open>One pass of the loop of \<open>process_radarr_force_unmonitor\<close> over a movie.\<close>

definition radarr_movie ::
  "config \<Rightarrow> client \<Rightarrow> json \<Rightarrow> remote \<Rightarrow> world \<Rightarrow> error option \<times> world" where
  "radarr_movie cfg self movie env w =
     (case py_get movie ''id'' JNull of
        Inl e \<Rightarrow> (Some e, w)
      | Inr movie_id \<Rightarrow>
          if movie_id = JNull then (None, w)
          else
            (case py_get movie ''movieFileId'' JNull of
               Inl e \<Rightarrow> (Some e, w)
             | Inr movie_file_id \<Rightarrow>
                 if movie_file_id = JNull then (None, w)
                 else
                   (case py_get movie ''monitored'' (JBool False) of
                      Inl e \<Rightarrow> (Some e, w)
                    | Inr monitored \<Rightarrow>
                        if \<not> truthy monitored then (None, w)
                        else
                          (case get_movie_file self movie_file_id env w of
                             (movie_file, w1) \<Rightarrow>
                               if movie_file = JNull then (None, w1)
                               else
                                 (case evaluate_quality cfg movie_file of
                                    Inl e \<Rightarrow> (Some e, w1)
                                  | Inr should_unmonitor \<Rightarrow>
                                      if should_unmonitor
                                      then (None, unmonitor_movie_and_log self movie_id env w1)
                                      else (None, w1))))))"

fun radarr_movies_loop ::
  "config \<Rightarrow> client \<Rightarrow> json list \<Rightarrow> remote \<Rightarrow> world \<Rightarrow> error option \<times> world" where
  "radarr_movies_loop cfg self [] env w = (None, w)"
| "radarr_movies_loop cfg self (movie # rest) env w =
     (case radarr_movie cfg self movie env w of
        (Some e, w1) \<Rightarrow> (Some e, w1)
      | (None, w1) \<Rightarrow> radarr_movies_loop cfg self rest env w1)"


section \<open>Configuration store\<close>

text \<open>
  \<open>ConfigManager\<close> holds a dict from configuration id to configuration dict and
  writes it to its YAML file after each change. The store never looks into the
  values it keeps, so their type is left open. Every id owns its dict, as
  \<open>add_config\<close> creates them. \<open>_save_configs\<close> catches a failed write and
  returns \<open>False\<close>; whether the file can be written is an input.
\<close>

record 'v manager =
  configs :: "string \<rightharpoonup> (string \<rightharpoonup> 'v)"
  file_contents :: "string \<rightharpoonup> (string \<rightharpoonup> 'v)"

definition save_configs :: "bool \<Rightarrow> 'v manager \<Rightarrow> bool \<times> 'v manager" where
  "save_configs writable m =
     (if writable then (True, m\<lparr>file_contents := configs m\<rparr>) else (False, m))"

definition updatable_keys :: "string list" where
  "updatable_keys =
     [''name'', ''service_type'', ''ip_address'', ''api_token'', ''quality_score'', ''format_name'']"

text \<open>The loop \<open>for key, value in kwargs.items()\<close> on the configuration dict.\<close>

fun apply_kwargs :: "(string \<times> 'v) list \<Rightarrow> (string \<rightharpoonup> 'v) \<Rightarrow> (string \<rightharpoonup> 'v)" where
  "apply_kwargs [] d = d"
| "apply_kwargs ((key, val) # rest) d =
     apply_kwargs rest (if key \<in> set updatable_keys then d(key \<mapsto> val) else d)"

definition update_config ::
  "bool \<Rightarrow> string \<Rightarrow> (string \<times> 'v) list \<Rightarrow> 'v manager \<Rightarrow> bool \<times> 'v manager" where
  "update_config writable config_id kwargs m =
     (case configs m config_id of
        None \<Rightarrow> (False, m)
      | Some d \<Rightarrow>
          (True,
           snd (save_configs writable
                  (m\<lparr>configs := (configs m)(config_id \<mapsto> apply_kwargs kwargs d)\<rparr>))))"

text \<open>
  \<open>regenerate_webhook_token\<close>; the fresh \<open>uuid4\<close> string is an input.
\<close>

definition regenerate_webhook_token ::
  "bool \<Rightarrow> 'v \<Rightarrow> string \<Rightarrow> 'v manager \<Rightarrow> 'v option \<times> 'v manager" where
  "regenerate_webhook_token writable new_token config_id m =
     (case configs m config_id of
        None \<Rightarrow> (None, m)
      | Some d \<Rightarrow>
          (Some new_token,
           snd (save_configs writable
                  (m\<lparr>configs := (configs m)(config_id \<mapsto> d(''webhook_token'' \<mapsto> new_token))\<rparr>))))"

section \<open>Shapes of resources and example inputs\<close>

text \<open>
  The shape the API documents for an object that carries quality info: the score,
  when there, is an integer, and the custom formats, when there, are a list of
  objects whose name is a string (or is missing or empty).
\<close>

definition well_formed_format :: "json \<Rightarrow> bool" where
  "well_formed_format cf =
     (case cf of
        JObj kvs \<Rightarrow>
          (case map_of kvs ''name'' of
             None \<Rightarrow> True
           | Some (JStr s) \<Rightarrow> True
           | Some n \<Rightarrow> \<not> truthy n)
      | _ \<Rightarrow> False)"

definition well_formed_quality :: "json \<Rightarrow> bool" where
  "well_formed_quality quality =
     (case quality of
        JObj kvs \<Rightarrow>
          (case map_of kvs ''customFormatScore'' of
             None \<Rightarrow> True
           | Some (JInt n) \<Rightarrow> True
           | Some _ \<Rightarrow> False) \<and>
          (case map_of kvs ''customFormats'' of
             None \<Rightarrow> True
           | Some (JList cfs) \<Rightarrow> list_all well_formed_format cfs
           | Some _ \<Rightarrow> False)
      | _ \<Rightarrow> False)"

text \<open>A configuration with a threshold of 80 and the format substring \<open>HDR\<close>.\<close>

definition example_config :: config where
  "example_config =
     \<lparr>ip_address = ''tv.local:8989'', api_token = ''key'',
      quality_score = Some 80, format_name = Some ''HDR''\<rparr>"

text \<open>A remote service that accepts every request with an empty body, and a fresh state.\<close>

definition accepting :: remote where
  "accepting sent req = NotJson"

definition world0 :: world where
  "world0 = \<lparr>requests = [], error_log = []\<rparr>"

text \<open>
  A Sonarr \<open>Download\<close> webhook with a custom format score and a list of episodes,
  and a service on which episode 101 cannot be fetched.
\<close>

definition download_payload :: "int \<Rightarrow> json list \<Rightarrow> json" where
  "download_payload score episodes =
     JObj [(''eventType'', JStr ''Download''),
           (''episodes'', JList episodes),
           (''customFormatInfo'', JObj [(''customFormatScore'', JInt score)])]"

definition flaky :: remote where
  "flaky sent req =
     (if last (url req) = Fmt (JInt 101) then Timeout
      else Json (JObj [(''id'', JInt 102), (''monitored'', JBool True)]))"

text \<open>The value under \<open>id\<close> of each listed item, \<open>None\<close> where there is none.\<close>

definition listed_ids :: "json list \<Rightarrow> json list" where
  "listed_ids eps = map (\<lambda>ep. case py_get ep ''id'' JNull of Inl e \<Rightarrow> JNull | Inr i \<Rightarrow> i) eps"

text \<open>An item whose \<open>monitored\<close> flag is false or missing.\<close>

definition unmonitored :: "json \<Rightarrow> bool" where
  "unmonitored item =
     (case py_get item ''monitored'' (JBool False) of
        Inl e \<Rightarrow> False
      | Inr m \<Rightarrow> \<not> truthy m)"

text \<open>A store with two configurations.\<close>

definition store0 :: "string manager" where
  "store0 =
     \<lparr>configs =
        [''a'' \<mapsto> [''id'' \<mapsto> ''a'', ''name'' \<mapsto> ''tv'', ''webhook_token'' \<mapsto> ''token-a''],
         ''b'' \<mapsto> [''id'' \<mapsto> ''b'', ''name'' \<mapsto> ''films'', ''webhook_token'' \<mapsto> ''token-b'']],
      file_contents = Map.empty\<rparr>"














section \<open>Properties of the quality gate\<close>

lemma str_in_sublist: "str_in a b \<longleftrightarrow> sublist a b"
  by (induction b) (auto simp: sublist_Cons_right)

lemma format_loop_strings:
  "format_loop f (map JStr ns) su = Inr (su \<or> (\<exists>n \<in> set ns. str_in (lower f) (lower n)))"
  by (induction ns) auto

lemma format_criterion_strings:
  "format_criterion cfg (map JStr ns) su =
     Inr (su \<or> (\<exists>f. format_name cfg = Some f \<and> f \<noteq> [] \<and>
                    (\<exists>n \<in> set ns. str_in (lower f) (lower n))))"
  by (cases "format_name cfg") (auto simp: format_criterion_def format_loop_strings)

lemma quality_gate_value:
  "quality_gate cfg (JInt s) (map JStr names) =
     Inr ((\<exists>t. quality_score cfg = Some t \<and> s \<ge> t) \<or>
          (\<exists>f. format_name cfg = Some f \<and> f \<noteq> [] \<and>
               (\<exists>n \<in> set names. str_in (lower f) (lower n))))"
  by (cases "quality_score cfg")
     (auto simp: quality_gate_def threshold_criterion_def format_criterion_strings)

text \<open>
  C1. On a quality info with an integer score and string format names, the gate
  returns the disjunction of the two criteria: a threshold is configured and the score
  reaches it, or a non-empty substring is configured and the lowercase form of some
  name contains its lowercase form. With neither configured or neither met it is false.
\<close>

theorem quality_gate_or:
  "quality_gate cfg (JInt s) (map JStr names) =
     Inr ((\<exists>t. quality_score cfg = Some t \<and> s \<ge> t) \<or>
          (\<exists>f. format_name cfg = Some f \<and> f \<noteq> [] \<and>
               (\<exists>n \<in> set names. sublist (lower f) (lower n))))"
  by (simp add: quality_gate_value str_in_sublist)

theorem quality_gate_or_witness:
  "quality_gate example_config (JInt 85) (map JStr [''x265'']) = Inr True
   \<and> quality_gate example_config (JInt 10) (map JStr [''x265'', ''hdr10+'']) = Inr True
   \<and> quality_gate example_config (JInt 10) (map JStr [''x265'']) = Inr False
   \<and> quality_gate (example_config\<lparr>quality_score := None, format_name := None\<rparr>)
        (JInt 100) (map JStr [''HDR'']) = Inr False"
  using quality_gate_or [of example_config 85 "[''x265'']"]
    quality_gate_or [of example_config 10 "[''x265'', ''hdr10+'']"]
    quality_gate_or [of example_config 10 "[''x265'']"]
    quality_gate_or [of "example_config\<lparr>quality_score := None, format_name := None\<rparr>" 100 "[''HDR'']"]
  by (simp add: example_config_def str_in_sublist [symmetric] lower_def lower_char_def)

text \<open>
  C3. With a non-empty format substring configured, the format criterion on a list of
  names holds iff the lowercase form of some name contains the lowercase form of the
  substring as a contiguous substring; equality is not needed, so \<open>HDR\<close> matches
  \<open>HDR10+\<close>.
\<close>

theorem format_substring_match:
  assumes "format_name cfg = Some f" and "f \<noteq> []"
  shows "format_criterion cfg (map JStr names) False =
           Inr (\<exists>n \<in> set names. sublist (lower f) (lower n))"
  using assms by (simp add: format_criterion_strings str_in_sublist)

theorem format_substring_match_witness:
  "format_name example_config = Some ''HDR'' \<and> ''HDR'' \<noteq> [] \<and>
   format_criterion example_config (map JStr [''HDR10+'']) False = Inr True"
  using format_substring_match [of example_config "''HDR''" "[''HDR10+'']"]
  by (simp add: example_config_def str_in_sublist [symmetric] lower_def lower_char_def)

section \<open>Extraction of the quality info\<close>

lemma format_names_well_formed:
  "list_all well_formed_format cfs \<Longrightarrow> \<exists>ns. format_names cfs = Inr (map JStr ns)"
proof (induction cfs)
  case Nil
  then show ?case by simp
next
  case (Cons cf cfs)
  then obtain ns where ns: "format_names cfs = Inr (map JStr ns)" by auto
  from Cons.prems obtain kvs where cf: "cf = JObj kvs"
    by (auto simp: well_formed_format_def split: json.splits)
  show ?case
  proof (cases "map_of kvs ''name''")
    case None
    then have "format_names (cf # cfs) = Inr (map JStr ns)" using ns cf by simp
    then show ?thesis by blast
  next
    case (Some n)
    show ?thesis
    proof (cases "truthy n")
      case True
      with Some Cons.prems cf obtain s where "n = JStr s"
        by (auto simp: well_formed_format_def split: json.splits)
      then have "format_names (cf # cfs) = Inr (map JStr (s # ns))"
        using ns cf Some True by simp
      then show ?thesis by blast
    next
      case False
      then have "format_names (cf # cfs) = Inr (map JStr ns)" using ns cf Some by simp
      then show ?thesis by blast
    qed
  qed
qed

lemma quality_info_well_formed:
  assumes "well_formed_quality quality"
  shows "\<exists>s ns. quality_info quality = Inr (JInt s, map JStr ns)"
proof -
  from assms obtain kvs where q: "quality = JObj kvs"
    by (auto simp: well_formed_quality_def split: json.splits)
  from assms q obtain s where s: "(case map_of kvs ''customFormatScore'' of None \<Rightarrow> JInt 0 | Some v \<Rightarrow> v) = JInt s"
    by (auto simp: well_formed_quality_def split: option.splits json.splits)
  from assms q obtain cfs where cfs: "(case map_of kvs ''customFormats'' of None \<Rightarrow> JList [] | Some v \<Rightarrow> v) = JList cfs"
     and wf: "list_all well_formed_format cfs"
    by (auto simp: well_formed_quality_def split: option.splits json.splits)
  from format_names_well_formed [OF wf] obtain ns where "format_names cfs = Inr (map JStr ns)" by blast
  then have "quality_info quality = Inr (JInt s, map JStr ns)"
    using q s cfs by (simp add: quality_info_def)
  then show ?thesis by blast
qed

lemma evaluate_quality_well_formed:
  assumes "well_formed_quality quality"
  shows "\<exists>b. evaluate_quality cfg quality = Inr b"
proof -
  from quality_info_well_formed [OF assms] obtain s ns
    where "quality_info quality = Inr (JInt s, map JStr ns)" by blast
  then show ?thesis by (simp add: evaluate_quality_def quality_gate_value)
qed

text \<open>
  C2 (as amended). Extraction and gate are a function of the quality object and the
  configuration alone. On every well-formed quality object (score missing or an integer,
  custom formats missing or a list of objects with a string, empty or missing name)
  they return a verdict and do not raise. A missing score is read as 0 and missing custom
  formats as the empty list; with both missing the verdict is true exactly when a
  threshold is configured and is at most 0.
\<close>

theorem evaluate_quality_total:
  "(well_formed_quality quality \<longrightarrow> (\<exists>b. evaluate_quality cfg quality = Inr b))
   \<and> (map_of kvs ''customFormatScore'' = None \<and> well_formed_quality (JObj kvs) \<longrightarrow>
        (\<exists>names. quality_info (JObj kvs) = Inr (JInt 0, names)))
   \<and> (map_of kvs ''customFormats'' = None \<and> well_formed_quality (JObj kvs) \<longrightarrow>
        (\<exists>score. quality_info (JObj kvs) = Inr (score, [])))
   \<and> (map_of kvs ''customFormatScore'' = None \<and> map_of kvs ''customFormats'' = None \<longrightarrow>
        evaluate_quality cfg (JObj kvs) = Inr (\<exists>t. quality_score cfg = Some t \<and> t \<le> 0))"
proof (intro conjI impI)
  assume "well_formed_quality quality"
  then show "\<exists>b. evaluate_quality cfg quality = Inr b" by (rule evaluate_quality_well_formed)
next
  assume a: "map_of kvs ''customFormatScore'' = None \<and> well_formed_quality (JObj kvs)"
  then obtain s ns where "quality_info (JObj kvs) = Inr (JInt s, map JStr ns)"
    using quality_info_well_formed by blast
  with a show "\<exists>names. quality_info (JObj kvs) = Inr (JInt 0, names)"
    by (auto simp: quality_info_def split: sum.splits)
next
  assume a: "map_of kvs ''customFormats'' = None \<and> well_formed_quality (JObj kvs)"
  then obtain s ns where "quality_info (JObj kvs) = Inr (JInt s, map JStr ns)"
    using quality_info_well_formed by blast
  with a show "\<exists>score. quality_info (JObj kvs) = Inr (score, [])"
    by (auto simp: quality_info_def split: sum.splits)
next
  assume a: "map_of kvs ''customFormatScore'' = None \<and> map_of kvs ''customFormats'' = None"
  then have "quality_info (JObj kvs) = Inr (JInt 0, map JStr [])"
    by (simp add: quality_info_def)
  then show "evaluate_quality cfg (JObj kvs) = Inr (\<exists>t. quality_score cfg = Some t \<and> t \<le> 0)"
    by (simp add: evaluate_quality_def quality_gate_value del: list.map)
qed

text \<open>
  The claim as stated fails twice: a score of \<open>None\<close> under a configured threshold
  raises \<open>TypeError\<close>, and a missing score under the threshold 0 gives the verdict true.
\<close>

theorem evaluate_quality_counterexample:
  "evaluate_quality example_config (JObj [(''customFormatScore'', JNull)]) = Inl TypeError
   \<and> evaluate_quality (example_config\<lparr>quality_score := Some 0\<rparr>) (JObj []) = Inr True"
  by (simp add: evaluate_quality_def quality_info_def quality_gate_def threshold_criterion_def
      format_criterion_def example_config_def)

theorem evaluate_quality_total_witness:
  "well_formed_quality (JObj [(''customFormats'', JList [JObj [(''name'', JStr ''HDR10+'')]])])
   \<and> (\<exists>b. evaluate_quality example_config
             (JObj [(''customFormats'', JList [JObj [(''name'', JStr ''HDR10+'')]])]) = Inr b)
   \<and> (\<exists>names. quality_info (JObj [(''customFormats'', JList [JObj [(''name'', JStr ''HDR10+'')]])])
         = Inr (JInt 0, names))
   \<and> well_formed_quality (JObj [(''customFormatScore'', JInt 85)])
   \<and> (\<exists>score. quality_info (JObj [(''customFormatScore'', JInt 85)]) = Inr (score, []))
   \<and> evaluate_quality example_config (JObj []) = Inr False"
  using evaluate_quality_total [of "JObj [(''customFormats'', JList [JObj [(''name'', JStr ''HDR10+'')]])]"
          example_config "[(''customFormats'', JList [JObj [(''name'', JStr ''HDR10+'')]])]"]
    evaluate_quality_total [of "JObj [(''customFormatScore'', JInt 85)]"
          example_config "[(''customFormatScore'', JInt 85)]"]
    evaluate_quality_total [of "JObj []" example_config "[]"]
  by (simp add: well_formed_quality_def well_formed_format_def example_config_def)

section \<open>Properties of the event orchestrators\<close>

text \<open>
  C4. For a payload whose event type, as read from it, is not \<open>Download\<close>, the
  Sonarr and the Radarr orchestrator both return \<open>True\<close> and leave the state as it
  was: no request is sent and nothing is logged.
\<close>

theorem non_download_ignored:
  assumes "py_get webhook_data ''eventType'' JNull = Inr event_type"
    and "event_type \<noteq> JStr ''Download''"
  shows "process_sonarr_webhook cfg webhook_data env w = (True, w)
       \<and> process_radarr_webhook cfg webhook_data env w = (True, w)"
  using assms
  by (simp add: process_sonarr_webhook_def sonarr_webhook_body_def
      process_radarr_webhook_def radarr_webhook_body_def)

theorem non_download_ignored_witness:
  "py_get (JObj [(''eventType'', JStr ''Grab'')]) ''eventType'' JNull = Inr (JStr ''Grab'')
   \<and> JStr ''Grab'' \<noteq> JStr ''Download''
   \<and> process_sonarr_webhook example_config (JObj [(''eventType'', JStr ''Grab'')]) accepting world0
       = (True, world0)
   \<and> process_radarr_webhook example_config (JObj [(''eventType'', JStr ''Grab'')]) accepting world0
       = (True, world0)"
  using non_download_ignored [of "JObj [(''eventType'', JStr ''Grab'')]" "JStr ''Grab''"
      example_config accepting world0]
  by simp

lemma webhook_episodes_loop_dicts:
  "list_all is_dict eps \<Longrightarrow>
   webhook_episodes_loop self eps env w =
     (None, foldl (\<lambda>w i. unmonitor_and_log self i env w) w (filter truthy (listed_ids eps)))"
proof (induction eps arbitrary: w)
  case Nil
  then show ?case by (simp add: listed_ids_def)
next
  case (Cons ep eps)
  then obtain kvs where "ep = JObj kvs" by (auto simp: is_dict_def split: json.splits)
  with Cons show ?case by (simp add: listed_ids_def)
qed

text \<open>
  C5 (as amended). For a Sonarr \<open>Download\<close> webhook whose quality info passes the
  gate (evaluated once, for all episodes) and whose episodes are a list of objects, the
  orchestrator returns \<open>True\<close> and its effect is that of \<open>unmonitor_episode\<close>
  called once, in order, for each listed id that is truthy (not \<open>None\<close>, 0, false or
  empty); a call that fails adds its record to the error log and the next ids are
  still processed.
\<close>

theorem sonarr_webhook_unmonitors:
  assumes "py_get webhook_data ''eventType'' JNull = Inr (JStr ''Download'')"
    and "py_get webhook_data ''customFormatInfo'' (JObj []) = Inr quality"
    and "evaluate_quality cfg quality = Inr True"
    and "py_get webhook_data ''episodes'' (JList []) = Inr (JList eps)"
    and "list_all is_dict eps"
  shows "process_sonarr_webhook cfg webhook_data env w =
           (True,
            foldl (\<lambda>w i. unmonitor_and_log
                            (SonarrRadarrClient (ip_address cfg) (api_token cfg) ''sonarr'') i env w)
              w (filter truthy (listed_ids eps)))"
  using assms
  by (simp add: process_sonarr_webhook_def sonarr_webhook_body_def webhook_episodes_loop_dicts)


lemmas eval_defs =
  process_sonarr_webhook_def sonarr_webhook_body_def evaluate_quality_def quality_info_def
  quality_gate_def threshold_criterion_def format_criterion_def example_config_def
  SonarrRadarrClient_def unmonitor_and_log_def unmonitor_episode_def make_request_def
  log_error_def world0_def lower_def lower_char_def upper_def upper_char_def rstrip_slash_def
  download_payload_def returned_def Let_def

text \<open>
  The claim as stated fails for a listed episode with the id 0: the gate passes and
  the id is present, yet no request is sent.
\<close>

theorem sonarr_webhook_zero_id_counterexample:
  "py_get (JObj [(''id'', JInt 0)]) ''id'' JNull = Inr (JInt 0)
   \<and> evaluate_quality example_config (JObj [(''customFormatScore'', JInt 85)]) = Inr True
   \<and> process_sonarr_webhook example_config (download_payload 85 [JObj [(''id'', JInt 0)]])
        accepting world0 = (True, world0)"
  by (simp add: eval_defs)

theorem sonarr_webhook_unmonitors_witness:
  "py_get (download_payload 85 [JObj [(''id'', JInt 101)], JObj [(''id'', JInt 102)]])
      ''eventType'' JNull = Inr (JStr ''Download'')
   \<and> evaluate_quality example_config (JObj [(''customFormatScore'', JInt 85)]) = Inr True
   \<and> list_all is_dict [JObj [(''id'', JInt 101)], JObj [(''id'', JInt 102)]]
   \<and> process_sonarr_webhook example_config
        (download_payload 85 [JObj [(''id'', JInt 101)], JObj [(''id'', JInt 102)]]) flaky world0 =
       (True,
        \<lparr>requests =
           [\<lparr>meth = ''GET'',
             url = [Lit ''http://tv.local:8989/api/v3'', Lit ''/'', Lit ''episode/'', Fmt (JInt 101)],
             api_key = ''key'', body = None\<rparr>,
            \<lparr>meth = ''GET'',
             url = [Lit ''http://tv.local:8989/api/v3'', Lit ''/'', Lit ''episode/'', Fmt (JInt 102)],
             api_key = ''key'', body = None\<rparr>,
            \<lparr>meth = ''PUT'',
             url = [Lit ''http://tv.local:8989/api/v3'', Lit ''/'', Lit ''episode/'', Fmt (JInt 102)],
             api_key = ''key'',
             body = Some (JObj [(''id'', JInt 102), (''monitored'', JBool False)])\<rparr>],
          error_log = [[Lit ''Failed to unmonitor Sonarr episode ID: '', Fmt (JInt 101)]]\<rparr>)"
  using sonarr_webhook_unmonitors [of
      "download_payload 85 [JObj [(''id'', JInt 101)], JObj [(''id'', JInt 102)]]"
      "JObj [(''customFormatScore'', JInt 85)]" example_config
      "[JObj [(''id'', JInt 101)], JObj [(''id'', JInt 102)]]" flaky world0]
  by (simp add: eval_defs flaky_def listed_ids_def is_dict_def)

section \<open>Properties of the API client\<close>

text \<open>
  C9. On a client whose service type is not \<open>sonarr\<close>, \<open>unmonitor_episode\<close>
  and \<open>unmonitor_episodes\<close> return \<open>False\<close> and \<open>get_series\<close> and
  \<open>get_episodes\<close> return \<open>None\<close>; on a client whose service type is not
  \<open>radarr\<close>, \<open>unmonitor_movie\<close> returns \<open>False\<close> and \<open>get_movies\<close> and
  \<open>get_movie_file\<close> return \<open>None\<close>. In each case the state is unchanged: no
  request is sent.
\<close>

theorem wrong_service_no_request:
  "(self_service_type self \<noteq> ''sonarr'' \<longrightarrow>
      unmonitor_episode self episode_id env w = (False, w)
    \<and> unmonitor_episodes self episode_ids env w = (False, w)
    \<and> get_series self env w = (JNull, w)
    \<and> get_episodes self series_id custom_headers env w = (JNull, w))
   \<and> (self_service_type self \<noteq> ''radarr'' \<longrightarrow>
      unmonitor_movie self movie_id env w = (False, w)
    \<and> get_movies self env w = (JNull, w)
    \<and> get_movie_file self movie_id env w = (JNull, w))"
  by (simp add: unmonitor_episode_def unmonitor_episodes_def get_series_def get_episodes_def
      unmonitor_movie_def get_movies_def get_movie_file_def)

theorem wrong_service_no_request_witness:
  "self_service_type (SonarrRadarrClient ''films.local:7878'' ''key'' ''Radarr'') \<noteq> ''sonarr''
   \<and> unmonitor_episode (SonarrRadarrClient ''films.local:7878'' ''key'' ''Radarr'') (JInt 7)
        accepting world0 = (False, world0)
   \<and> unmonitor_episodes (SonarrRadarrClient ''films.local:7878'' ''key'' ''Radarr'') [JInt 7]
        accepting world0 = (False, world0)
   \<and> get_series (SonarrRadarrClient ''films.local:7878'' ''key'' ''Radarr'') accepting world0
        = (JNull, world0)
   \<and> get_episodes (SonarrRadarrClient ''films.local:7878'' ''key'' ''Radarr'') (JInt 1) []
        accepting world0 = (JNull, world0)
   \<and> self_service_type (SonarrRadarrClient ''tv.local:8989'' ''key'' ''sonarr'') \<noteq> ''radarr''
   \<and> unmonitor_movie (SonarrRadarrClient ''tv.local:8989'' ''key'' ''sonarr'') (JInt 7)
        accepting world0 = (False, world0)
   \<and> get_movies (SonarrRadarrClient ''tv.local:8989'' ''key'' ''sonarr'') accepting world0
        = (JNull, world0)
   \<and> get_movie_file (SonarrRadarrClient ''tv.local:8989'' ''key'' ''sonarr'') (JInt 7)
        accepting world0 = (JNull, world0)"
  using wrong_service_no_request [of "SonarrRadarrClient ''films.local:7878'' ''key'' ''Radarr''"
      "JInt 7" accepting world0 "[JInt 7]" "JInt 1" "[]" "JInt 7"]
    wrong_service_no_request [of "SonarrRadarrClient ''tv.local:8989'' ''key'' ''sonarr''"
      "JInt 7" accepting world0 "[JInt 7]" "JInt 1" "[]" "JInt 7"]
  by (simp add: SonarrRadarrClient_def lower_def lower_char_def)

section \<open>Properties of the configuration store\<close>

lemma apply_kwargs_other: "key \<notin> set updatable_keys \<Longrightarrow> apply_kwargs kwargs d key = d key"
  by (induction kwargs d rule: apply_kwargs.induct) auto

lemma regenerate_webhook_token_sets:
  "configs m config_id = Some d \<Longrightarrow>
   configs (snd (regenerate_webhook_token writable new_token config_id m)) config_id
     = Some (d(''webhook_token'' \<mapsto> new_token))"
  by (simp add: regenerate_webhook_token_def save_configs_def)

text \<open>
  C10. \<open>update_config\<close> returns \<open>True\<close> iff the id is stored and leaves the
  manager unchanged otherwise. It keeps the set of stored ids and every other
  configuration, and in the updated configuration every key outside the six updatable
  ones keeps its value, \<open>id\<close> and \<open>webhook_token\<close> among them.
\<close>

theorem update_config_frame:
  "fst (update_config writable config_id kwargs m) = (config_id \<in> dom (configs m))
   \<and> (config_id \<notin> dom (configs m) \<longrightarrow> snd (update_config writable config_id kwargs m) = m)
   \<and> (\<forall>other. other \<noteq> config_id \<longrightarrow>
         configs (snd (update_config writable config_id kwargs m)) other = configs m other)
   \<and> dom (configs (snd (update_config writable config_id kwargs m))) = dom (configs m)
   \<and> (\<forall>d d' key. configs m config_id = Some d
         \<and> configs (snd (update_config writable config_id kwargs m)) config_id = Some d'
         \<and> key \<notin> set updatable_keys \<longrightarrow> d' key = d key)
   \<and> (\<forall>d d'. configs m config_id = Some d
         \<and> configs (snd (update_config writable config_id kwargs m)) config_id = Some d'
         \<longrightarrow> d' ''id'' = d ''id'' \<and> d' ''webhook_token'' = d ''webhook_token'')"
  by (cases "configs m config_id")
     (auto simp: update_config_def save_configs_def apply_kwargs_other updatable_keys_def)

theorem update_config_frame_witness:
  "''a'' \<in> dom (configs store0)
   \<and> fst (update_config True ''a'' [(''name'', ''shows''), (''webhook_token'', ''forged''), (''id'', ''z'')] store0)
   \<and> (\<exists>d'. configs (snd (update_config True ''a''
                 [(''name'', ''shows''), (''webhook_token'', ''forged''), (''id'', ''z'')] store0)) ''a'' = Some d'
          \<and> d' ''name'' = Some ''shows''
          \<and> d' ''id'' = Some ''a'' \<and> d' ''webhook_token'' = Some ''token-a'')
   \<and> configs (snd (update_config True ''a''
                 [(''name'', ''shows''), (''webhook_token'', ''forged''), (''id'', ''z'')] store0)) ''b''
       = configs store0 ''b''
   \<and> ''c'' \<notin> dom (configs store0)
   \<and> update_config True ''c'' [(''name'', ''shows'')] store0 = (False, store0)"
  using update_config_frame [of True "''a''"
      "[(''name'', ''shows''), (''webhook_token'', ''forged''), (''id'', ''z'')]" store0]
    update_config_frame [of True "''c''" "[(''name'', ''shows'')]" store0]
  by (simp add: store0_def update_config_def save_configs_def updatable_keys_def)

section \<open>Properties of the batch orchestrators\<close>


lemma sonarr_episode_skip:
  "unmonitored episode \<Longrightarrow> sonarr_episode cfg episode acc = Inr acc"
  by (cases episode) (auto simp: unmonitored_def sonarr_episode_def)












lemma radarr_movie_skip:
  "unmonitored movie \<Longrightarrow> radarr_movie cfg self movie env w = (None, w)"
  by (cases movie) (auto simp: unmonitored_def radarr_movie_def)

lemma sonarr_episodes_loop_filter:
  "sonarr_episodes_loop cfg eps acc =
     sonarr_episodes_loop cfg (filter (\<lambda>e. \<not> unmonitored e) eps) acc"
  by (induction eps arbitrary: acc) (auto simp: sonarr_episode_skip split: sum.splits)

lemma radarr_movies_loop_filter:
  "radarr_movies_loop cfg self ms env w =
     radarr_movies_loop cfg self (filter (\<lambda>m. \<not> unmonitored m) ms) env w"
  by (induction ms arbitrary: w) (auto simp: radarr_movie_skip split: prod.splits option.splits)

text \<open>
  C8. In both batch scans an item whose \<open>monitored\<close> flag is false or missing is
  skipped before its quality is looked at: the Sonarr loop and the Radarr loop behave on
  any list as they do on the list without such items, and on a list of such items only
  they collect no id, send no request and raise nothing. A second pass over items that
  a first pass has unmonitored therefore issues no unmonitor call for them.
\<close>

theorem unmonitored_items_skipped:
  "sonarr_episodes_loop cfg eps acc =
     sonarr_episodes_loop cfg (filter (\<lambda>e. \<not> unmonitored e) eps) acc
   \<and> radarr_movies_loop cfg self ms env w =
     radarr_movies_loop cfg self (filter (\<lambda>m. \<not> unmonitored m) ms) env w
   \<and> (list_all unmonitored eps \<longrightarrow> sonarr_episodes_loop cfg eps acc = Inr acc)
   \<and> (list_all unmonitored ms \<longrightarrow> radarr_movies_loop cfg self ms env w = (None, w))"
proof (intro conjI impI)
  show "sonarr_episodes_loop cfg eps acc =
     sonarr_episodes_loop cfg (filter (\<lambda>e. \<not> unmonitored e) eps) acc"
    by (rule sonarr_episodes_loop_filter)
  show "radarr_movies_loop cfg self ms env w =
     radarr_movies_loop cfg self (filter (\<lambda>m. \<not> unmonitored m) ms) env w"
    by (rule radarr_movies_loop_filter)
next
  assume "list_all unmonitored eps"
  then have "filter (\<lambda>e. \<not> unmonitored e) eps = []" by (simp add: list_all_iff)
  then show "sonarr_episodes_loop cfg eps acc = Inr acc"
    using sonarr_episodes_loop_filter [of cfg eps acc] by simp
next
  assume "list_all unmonitored ms"
  then have "filter (\<lambda>m. \<not> unmonitored m) ms = []" by (simp add: list_all_iff)
  then show "radarr_movies_loop cfg self ms env w = (None, w)"
    using radarr_movies_loop_filter [of cfg self ms env w] by simp
qed

theorem unmonitored_items_skipped_witness:
  "list_all unmonitored
     [JObj [(''id'', JInt 22), (''monitored'', JBool False), (''hasFile'', JBool True),
            (''episodeFile'', JObj [(''customFormatScore'', JInt 90)])],
      JObj [(''id'', JInt 23), (''hasFile'', JBool True)]]
   \<and> sonarr_episodes_loop example_config
     [JObj [(''id'', JInt 22), (''monitored'', JBool False), (''hasFile'', JBool True),
            (''episodeFile'', JObj [(''customFormatScore'', JInt 90)])],
      JObj [(''id'', JInt 23), (''hasFile'', JBool True)]] [] = Inr []
   \<and> list_all unmonitored
     [JObj [(''id'', JInt 2), (''movieFileId'', JInt 20), (''monitored'', JBool False)]]
   \<and> radarr_movies_loop example_config
       (SonarrRadarrClient ''films.local:7878'' ''key'' ''radarr'')
       [JObj [(''id'', JInt 2), (''movieFileId'', JInt 20), (''monitored'', JBool False)]]
       accepting world0 = (None, world0)"
  using unmonitored_items_skipped [of example_config
     "[JObj [(''id'', JInt 22), (''monitored'', JBool False), (''hasFile'', JBool True),
            (''episodeFile'', JObj [(''customFormatScore'', JInt 90)])],
      JObj [(''id'', JInt 23), (''hasFile'', JBool True)]]" "[]"
     "SonarrRadarrClient ''films.local:7878'' ''key'' ''radarr''"
     "[JObj [(''id'', JInt 2), (''movieFileId'', JInt 20), (''monitored'', JBool False)]]"
     accepting world0]
  by (simp add: unmonitored_def)









end
